theory Spec2Isabelle
  imports Complex_Main "HOL-Library.AList"
begin

section \<open>Values returned by the upstream API\<close>

text \<open>
  Both source files (\<^verbatim>\<open>src/server.ts\<close> and \<^verbatim>\<open>src/unnamed/part_000\<close>) obtain
  \<^verbatim>\<open>data\<close> from \<^verbatim>\<open>await r.json()\<close>: a JavaScript value built by the JSON parser. Such a
  value is a tree (no sharing), so the in-place assignments of the handlers are modelled
  as functions returning the updated tree. An object is the list of its own properties in
  insertion order; a number is held by its exact value (the code only ever tests a number
  against zero). Strings are the UTF-8 bytes of well-formed text.
\<close>

datatype json =
    JNull
  | JBool bool
  | JNum rat
  | JStr string
  | JArr "json list"
  | JObj "(string \<times> json) list"

text \<open>Values a handler can throw: a \<^verbatim>\<open>TypeError\<close> raised by the language itself, the
  \<^verbatim>\<open>new Error(message)\<close> of the handlers, a rejected \<^verbatim>\<open>fetch\<close> and a body that is not
  JSON.\<close>

datatype js_error = TypeError | Error string | FetchError | SyntaxError

text \<open>JavaScript truthiness. \<open>None\<close> stands for \<^verbatim>\<open>undefined\<close>.\<close>

fun truthy :: "json \<Rightarrow> bool" where
  "truthy JNull = False"
| "truthy (JBool b) = b"
| "truthy (JNum n) = (n \<noteq> 0)"
| "truthy (JStr s) = (s \<noteq> [])"
| "truthy (JArr xs) = True"
| "truthy (JObj kvs) = True"

definition truthy_opt :: "json option \<Rightarrow> bool" where
  "truthy_opt x = (case x of None \<Rightarrow> False | Some v \<Rightarrow> truthy v)"

text \<open>
  \<open>get_prop v k\<close> is \<^verbatim>\<open>v[k]\<close> for a value \<open>v\<close> that is neither \<^verbatim>\<open>null\<close> nor
  \<^verbatim>\<open>undefined\<close>, and for the keys the handlers read (\<^verbatim>\<open>transactions\<close>, \<^verbatim>\<open>customer\<close>,
  \<^verbatim>\<open>email\<close>, \<^verbatim>\<open>phone\<close>): an object answers with its own property, every other value
  (boolean, number, string, array) has no such property and answers \<^verbatim>\<open>undefined\<close>.
\<close>

fun get_prop :: "json \<Rightarrow> string \<Rightarrow> json option" where
  "get_prop (JObj kvs) k = map_of kvs k"
| "get_prop v k = None"

text \<open>\<open>member x k\<close> is \<^verbatim>\<open>x.k\<close>, which throws on \<^verbatim>\<open>null\<close> and \<^verbatim>\<open>undefined\<close>;
  \<open>opt_member x k\<close> is \<^verbatim>\<open>x?.k\<close>, which answers \<^verbatim>\<open>undefined\<close> there.\<close>

definition member :: "json option \<Rightarrow> string \<Rightarrow> js_error + json option" where
  "member x k = (case x of None \<Rightarrow> Inl TypeError
                 | Some JNull \<Rightarrow> Inl TypeError
                 | Some v \<Rightarrow> Inr (get_prop v k))"

definition opt_member :: "json option \<Rightarrow> string \<Rightarrow> json option" where
  "opt_member x k = (case x of None \<Rightarrow> None
                     | Some JNull \<Rightarrow> None
                     | Some v \<Rightarrow> get_prop v k)"

text \<open>
  \<open>set_prop v k w\<close> is the assignment \<^verbatim>\<open>v.k = w\<close> on an object: an existing key keeps its
  place, a new key goes last. The handlers assign only under a guard that has just read a
  truthy \<^verbatim>\<open>v.k\<close>, which forces \<open>v\<close> to be an object (lemma \<open>truthy_prop_is_object\<close>
  below), so the other equation is never reached.
\<close>

fun set_prop :: "json \<Rightarrow> string \<Rightarrow> json \<Rightarrow> json" where
  "set_prop (JObj kvs) k w = JObj (AList.update k w kvs)"
| "set_prop v k w = v"

text \<open>\<open>assign_customer t k w\<close> is the assignment \<^verbatim>\<open>t.customer.k = w\<close>: the object held in
  \<^verbatim>\<open>t.customer\<close> is updated where it sits inside \<open>t\<close>.\<close>

definition assign_customer :: "json \<Rightarrow> string \<Rightarrow> json \<Rightarrow> json" where
  "assign_customer t k w =
     (case get_prop t ''customer'' of
        None \<Rightarrow> t
      | Some c \<Rightarrow> set_prop t ''customer'' (set_prop c k w))"

section \<open>Redaction\<close>

subsection \<open>\<^verbatim>\<open>punchh.getCustomer\<close>: the customer record is the payload\<close>

text \<open>
  \<^verbatim>\<open>if (data?.email) data.email = 'redacted@example.com';\<close>
  \<^verbatim>\<open>if (data?.phone) data.phone = '**********';\<close>
  The two statements are the same in both source files.
\<close>

definition getCustomer_redact :: "json \<Rightarrow> json" where
  "getCustomer_redact data =
     (let data1 = (if truthy_opt (opt_member (Some data) ''email'')
                   then set_prop data ''email'' (JStr ''redacted@example.com'') else data);
          data2 = (if truthy_opt (opt_member (Some data1) ''phone'')
                   then set_prop data1 ''phone'' (JStr ''**********'') else data1)
      in data2)"

subsection \<open>\<^verbatim>\<open>punchh.listTransactions\<close>: the customer record is nested in each transaction\<close>

text \<open>
  The loop body of \<^verbatim>\<open>src/unnamed/part_000\<close>:
  \<^verbatim>\<open>if (t?.customer?.email) t.customer.email = 'redacted@example.com';\<close>
  \<^verbatim>\<open>if (t?.customer?.phone) t.customer.phone = '**********';\<close>
\<close>

definition redact_txn_part0 :: "json \<Rightarrow> json" where
  "redact_txn_part0 t =
     (let t1 = (if truthy_opt (opt_member (opt_member (Some t) ''customer'') ''email'')
                then assign_customer t ''email'' (JStr ''redacted@example.com'') else t);
          t2 = (if truthy_opt (opt_member (opt_member (Some t1) ''customer'') ''phone'')
                then assign_customer t1 ''phone'' (JStr ''**********'') else t1)
      in t2)"

text \<open>
  The loop body of \<^verbatim>\<open>src/server.ts\<close> reads \<^verbatim>\<open>t.customer\<close> without the first \<^verbatim>\<open>?.\<close>:
  \<^verbatim>\<open>if (t.customer?.email) t.customer.email = 'redacted@example.com';\<close>
  \<^verbatim>\<open>if (t.customer?.phone) t.customer.phone = '**********';\<close>
\<close>

definition redact_txn_server :: "json \<Rightarrow> js_error + json" where
  "redact_txn_server t =
     (case member (Some t) ''customer'' of
        Inl e \<Rightarrow> Inl e
      | Inr c \<Rightarrow>
          (let t1 = (if truthy_opt (opt_member c ''email'')
                     then assign_customer t ''email'' (JStr ''redacted@example.com'') else t)
           in case member (Some t1) ''customer'' of
                Inl e \<Rightarrow> Inl e
              | Inr c1 \<Rightarrow>
                  Inr (if truthy_opt (opt_member c1 ''phone'')
                       then assign_customer t1 ''phone'' (JStr ''**********'') else t1)))"

text \<open>The \<^verbatim>\<open>for (const t of ...)\<close> loop runs the body on the elements in order and stops
  at the first exception.\<close>

fun for_of_server :: "json list \<Rightarrow> js_error + json list" where
  "for_of_server [] = Inr []"
| "for_of_server (t # ts) =
     (case redact_txn_server t of
        Inl e \<Rightarrow> Inl e
      | Inr t' \<Rightarrow> (case for_of_server ts of Inl e \<Rightarrow> Inl e | Inr ts' \<Rightarrow> Inr (t' # ts')))"

fun for_of_part0 :: "json list \<Rightarrow> json list" where
  "for_of_part0 [] = []"
| "for_of_part0 (t # ts) = redact_txn_part0 t # for_of_part0 ts"

text \<open>
  \<^verbatim>\<open>for (const t of data?.transactions ?? []) { ... }\<close>
  The iterated value is \<^verbatim>\<open>data?.transactions\<close>, or the empty array when that is \<^verbatim>\<open>null\<close>
  or \<^verbatim>\<open>undefined\<close>. An array yields its elements, whose updates stay in \<open>data\<close>. A string
  yields its characters as strings, which the body cannot change. Every other value
  (boolean, number, object) is not iterable: \<^verbatim>\<open>for ... of\<close> throws a \<^verbatim>\<open>TypeError\<close>.
\<close>

definition listTransactions_redact_server :: "json \<Rightarrow> js_error + json" where
  "listTransactions_redact_server data =
     (case opt_member (Some data) ''transactions'' of
        None \<Rightarrow> Inr data
      | Some JNull \<Rightarrow> Inr data
      | Some (JArr ts) \<Rightarrow>
          (case for_of_server ts of
             Inl e \<Rightarrow> Inl e
           | Inr ts' \<Rightarrow> Inr (set_prop data ''transactions'' (JArr ts')))
      | Some (JStr s) \<Rightarrow>
          (case for_of_server (map (\<lambda>c. JStr [c]) s) of
             Inl e \<Rightarrow> Inl e
           | Inr _ \<Rightarrow> Inr data)
      | Some _ \<Rightarrow> Inl TypeError)"

definition listTransactions_redact_part0 :: "json \<Rightarrow> js_error + json" where
  "listTransactions_redact_part0 data =
     (case opt_member (Some data) ''transactions'' of
        None \<Rightarrow> Inr data
      | Some JNull \<Rightarrow> Inr data
      | Some (JArr ts) \<Rightarrow> Inr (set_prop data ''transactions'' (JArr (for_of_part0 ts)))
      | Some (JStr s) \<Rightarrow> (let _ = for_of_part0 (map (\<lambda>c. JStr [c]) s) in Inr data)
      | Some _ \<Rightarrow> Inl TypeError)"

text \<open>Running a step on the result of an earlier one: an exception of the first run is the
  result.\<close>

definition and_then :: "js_error + 'a \<Rightarrow> ('a \<Rightarrow> js_error + 'b) \<Rightarrow> js_error + 'b" where
  "and_then r f = (case r of Inl e \<Rightarrow> Inl e | Inr v \<Rightarrow> f v)"

text \<open>One guarded assignment \<^verbatim>\<open>if (v?.k) v.k = w\<close> on a value \<open>v\<close> that is not
  \<^verbatim>\<open>undefined\<close>. The handlers are not written with it; the proofs below show that each of
  them is a composition of such steps.\<close>

definition mask_field :: "string \<Rightarrow> json \<Rightarrow> json \<Rightarrow> json" where
  "mask_field k w v = (if truthy_opt (get_prop v k) then set_prop v k w else v)"

text \<open>A transaction whose nested customer record, if there is one, is redacted exactly as
  \<^verbatim>\<open>punchh.getCustomer\<close> redacts its payload. The loop bodies are not written with it; it
  states what "applied uniformly" means.\<close>

definition redact_nested_customer :: "json \<Rightarrow> json" where
  "redact_nested_customer t =
     (case get_prop t ''customer'' of
        None \<Rightarrow> t
      | Some c \<Rightarrow> set_prop t ''customer'' (getCustomer_redact c))"

section \<open>Upstream calls\<close>

text \<open>Decimal digits of a status code or a limit, as the template literals
  \<^verbatim>\<open>${r.status}\<close> and \<^verbatim>\<open>${limit}\<close> print an integer (of magnitude below
  \<^verbatim>\<open>1e21\<close>; a validated limit lies between 1 and 100).\<close>

definition digit_char :: "nat \<Rightarrow> char" where
  "digit_char d = ''0123456789'' ! d"

function show_nat :: "nat \<Rightarrow> string" where
  "show_nat n = (if n < 10 then [digit_char n] else show_nat (n div 10) @ [digit_char (n mod 10)])"
  by pat_completeness auto
termination
  by (relation "measure (\<lambda>n. n)") auto

declare show_nat.simps [simp del]

definition show_int :: "int \<Rightarrow> string" where
  "show_int i = (if i < 0 then CHR ''-'' # show_nat (nat (- i)) else show_nat (nat i))"

text \<open>
  \<^verbatim>\<open>encodeURIComponent\<close> keeps the letters, the digits and \<^verbatim>\<open>- _ . ! ~ * ' ( )\<close>, and
  writes every other byte of the UTF-8 text as \<^verbatim>\<open>%\<close> and two upper-case hexadecimal
  digits. (A JavaScript string with an unpaired surrogate, on which the function throws,
  has no UTF-8 form and is not a value of this model.)
\<close>

definition unreserved :: "char \<Rightarrow> bool" where
  "unreserved c =
     (c \<in> set ''ABCDEFGHIJKLMNOPQRSTUVWXYZabcdefghijklmnopqrstuvwxyz0123456789-_.!~*()''
      \<or> c = CHR 0x27)"

definition hex_digit :: "nat \<Rightarrow> char" where
  "hex_digit d = ''0123456789ABCDEF'' ! d"

definition percent_encode :: "char \<Rightarrow> string" where
  "percent_encode c =
     [CHR ''%'', hex_digit ((of_char c :: nat) div 16), hex_digit ((of_char c :: nat) mod 16)]"

definition encodeURIComponent :: "string \<Rightarrow> string" where
  "encodeURIComponent s = concat (map (\<lambda>c. if unreserved c then [c] else percent_encode c) s)"

text \<open>The three URL templates. \<^verbatim>\<open>punchh.getCustomer\<close> is the same in both files;
  \<^verbatim>\<open>punchh.listTransactions\<close> of \<^verbatim>\<open>src/server.ts\<close> (line 29) interpolates
  \<^verbatim>\<open>customer_id\<close> as it is, that of \<^verbatim>\<open>src/unnamed/part_000\<close> (line 68) passes it
  through \<^verbatim>\<open>encodeURIComponent\<close>.\<close>

definition getCustomer_url :: "string \<Rightarrow> string \<Rightarrow> string" where
  "getCustomer_url PUNCHH_BASE customer_id =
     PUNCHH_BASE @ ''/api/v2/customers/'' @ encodeURIComponent customer_id"

definition listTransactions_url_server :: "string \<Rightarrow> string \<Rightarrow> int \<Rightarrow> string" where
  "listTransactions_url_server PUNCHH_BASE customer_id limit =
     PUNCHH_BASE @ ''/api/v2/customers/'' @ customer_id
       @ ''/transactions?limit='' @ show_int limit"

definition listTransactions_url_part0 :: "string \<Rightarrow> string \<Rightarrow> int \<Rightarrow> string" where
  "listTransactions_url_part0 PUNCHH_BASE customer_id limit =
     PUNCHH_BASE @ ''/api/v2/customers/'' @ encodeURIComponent customer_id
       @ ''/transactions?limit='' @ show_int limit"

text \<open>What \<^verbatim>\<open>fetch\<close> gives back is an input of the model: the promise is rejected, or
  it resolves to a response with a status and a body that parses as JSON or does not.\<close>

record upstream_response =
  status :: nat
  parsed_body :: "json option"

datatype fetch_result = Rejected | Resolved upstream_response

type_synonym fetch_fn = "string \<Rightarrow> string \<Rightarrow> fetch_result"

definition ok :: "upstream_response \<Rightarrow> bool" where
  "ok r = (200 \<le> status r \<and> status r < 300)"

text \<open>
  \<^verbatim>\<open>const r = await fetch(url, ...);\<close>
  \<^verbatim>\<open>if (!r.ok) throw new Error(`Punchh error ${r.status}`);\<close>
  \<^verbatim>\<open>const data = await r.json();\<close>
  These lines are the same in the four handlers.
\<close>

definition upstream_json :: "fetch_result \<Rightarrow> js_error + json" where
  "upstream_json f =
     (case f of
        Rejected \<Rightarrow> Inl FetchError
      | Resolved r \<Rightarrow>
          if \<not> ok r then Inl (Error (''Punchh error '' @ show_nat (status r)))
          else (case parsed_body r of None \<Rightarrow> Inl SyntaxError | Some data \<Rightarrow> Inr data))"

text \<open>The value a handler returns: \<^verbatim>\<open>src/server.ts\<close> returns the data as a \<^verbatim>\<open>json\<close>
  content item, \<^verbatim>\<open>src/unnamed/part_000\<close> as a \<^verbatim>\<open>text\<close> item holding
  \<^verbatim>\<open>JSON.stringify(data)\<close>; \<open>TextContent d\<close> stands for the text that serialises \<open>d\<close>.\<close>

datatype content = JsonContent json | TextContent json

definition getCustomer_server :: "string \<Rightarrow> string \<Rightarrow> fetch_fn \<Rightarrow> string \<Rightarrow> js_error + content" where
  "getCustomer_server PUNCHH_BASE PUNCHH_TOKEN fetch customer_id =
     and_then (upstream_json (fetch (getCustomer_url PUNCHH_BASE customer_id)
                                    (''Bearer '' @ PUNCHH_TOKEN)))
       (\<lambda>data. Inr (JsonContent (getCustomer_redact data)))"

definition getCustomer_part0 :: "string \<Rightarrow> string \<Rightarrow> fetch_fn \<Rightarrow> string \<Rightarrow> js_error + content" where
  "getCustomer_part0 PUNCHH_BASE PUNCHH_TOKEN fetch customer_id =
     and_then (upstream_json (fetch (getCustomer_url PUNCHH_BASE customer_id)
                                    (''Bearer '' @ PUNCHH_TOKEN)))
       (\<lambda>data. Inr (TextContent (getCustomer_redact data)))"

definition listTransactions_server ::
  "string \<Rightarrow> string \<Rightarrow> fetch_fn \<Rightarrow> string \<Rightarrow> int \<Rightarrow> js_error + content" where
  "listTransactions_server PUNCHH_BASE PUNCHH_TOKEN fetch customer_id limit =
     and_then (upstream_json (fetch (listTransactions_url_server PUNCHH_BASE customer_id limit)
                                    (''Bearer '' @ PUNCHH_TOKEN)))
       (\<lambda>data. and_then (listTransactions_redact_server data) (\<lambda>d. Inr (JsonContent d)))"

definition listTransactions_part0 ::
  "string \<Rightarrow> string \<Rightarrow> fetch_fn \<Rightarrow> string \<Rightarrow> int \<Rightarrow> js_error + content" where
  "listTransactions_part0 PUNCHH_BASE PUNCHH_TOKEN fetch customer_id limit =
     and_then (upstream_json (fetch (listTransactions_url_part0 PUNCHH_BASE customer_id limit)
                                    (''Bearer '' @ PUNCHH_TOKEN)))
       (\<lambda>data. and_then (listTransactions_redact_part0 data) (\<lambda>d. Inr (TextContent d)))"

section \<open>Operation registry\<close>

text \<open>
  The argument schemas are data of the source: \<^verbatim>\<open>customer_id: z.string()\<close> for both
  tools, and \<^verbatim>\<open>limit: z.number().int().min(1).max(100).default(25)\<close> for
  \<^verbatim>\<open>punchh.listTransactions\<close>, the same in both files.
\<close>

datatype ptype = PString | PInteger

record parameter =
  pname :: string
  ptype :: ptype
  lower :: "int option"
  upper :: "int option"
  default_value :: "json option"

definition getCustomer_inputSchema :: "parameter list" where
  "getCustomer_inputSchema =
     [\<lparr>pname = ''customer_id'', ptype = PString, lower = None, upper = None,
       default_value = None\<rparr>]"

definition listTransactions_inputSchema :: "parameter list" where
  "listTransactions_inputSchema =
     [\<lparr>pname = ''customer_id'', ptype = PString, lower = None, upper = None,
       default_value = None\<rparr>,
      \<lparr>pname = ''limit'', ptype = PInteger, lower = Some 1, upper = Some 100,
       default_value = Some (JNum 25)\<rparr>]"

datatype registry_error =
    DuplicateOperation
  | UnknownOperation
  | MissingArgument string
  | InvalidArgument string
  | OperationFailed js_error

type_synonym arguments = "(string \<times> json) list"

record operation =
  op_name :: string
  op_schema :: "parameter list"
  op_handler :: "arguments \<Rightarrow> js_error + content"

text \<open>
  Modelled from the spec: the registry's \<^verbatim>\<open>register\<close> and \<^verbatim>\<open>invoke\<close>, with the
  validation of raw arguments against a schema. The source only declares the schemas and
  hands them to \<^verbatim>\<open>mcp.registerTool\<close>; the code that validates and calls the handler is
  not under \<^verbatim>\<open>src/\<close>. Following section 4.1 of the spec: each declared parameter must
  satisfy its type and, if bounded, its bounds; a missing parameter takes its declared
  default or fails with \<^verbatim>\<open>MissingArgument\<close>; an unknown extra parameter is rejected with
  \<^verbatim>\<open>InvalidArgument\<close>; \<^verbatim>\<open>register\<close> fails with \<^verbatim>\<open>DuplicateOperation\<close> on a name already
  present; \<^verbatim>\<open>invoke\<close> fails with \<^verbatim>\<open>UnknownOperation\<close> on an absent name and passes a
  handler's failure on as \<^verbatim>\<open>OperationFailed\<close>.
\<close>

text \<open>Modelled from the spec: the check of one supplied value against its declared
  parameter, "each declared parameter must satisfy its type and, if bounded (e.g., integer
  range), its bounds". The validating code is not under \<^verbatim>\<open>src/\<close>.\<close>

definition satisfies :: "parameter \<Rightarrow> json \<Rightarrow> bool" where
  "satisfies p v =
     (case ptype p of
        PString \<Rightarrow> (case v of JStr s \<Rightarrow> True | _ \<Rightarrow> False)
      | PInteger \<Rightarrow>
          (case v of
             JNum r \<Rightarrow>
               of_int \<lfloor>r\<rfloor> = r
               \<and> (case lower p of None \<Rightarrow> True | Some l \<Rightarrow> of_int l \<le> r)
               \<and> (case upper p of None \<Rightarrow> True | Some u \<Rightarrow> r \<le> of_int u)
           | _ \<Rightarrow> False))"

text \<open>Modelled from the spec: the normalized arguments, parameter by parameter in the
  order of the schema; "missing parameters use their declared default or fail with
  \<^verbatim>\<open>MissingArgument\<close> if no default exists". The validating code is not under
  \<^verbatim>\<open>src/\<close>.\<close>

fun normalize :: "parameter list \<Rightarrow> arguments \<Rightarrow> registry_error + arguments" where
  "normalize [] rawArgs = Inr []"
| "normalize (p # ps) rawArgs =
     (case map_of rawArgs (pname p) of
        None \<Rightarrow>
          (case default_value p of
             None \<Rightarrow> Inl (MissingArgument (pname p))
           | Some d \<Rightarrow>
               (case normalize ps rawArgs of
                  Inl e \<Rightarrow> Inl e
                | Inr rest \<Rightarrow> Inr ((pname p, d) # rest)))
      | Some v \<Rightarrow>
          if satisfies p v
          then (case normalize ps rawArgs of
                  Inl e \<Rightarrow> Inl e
                | Inr rest \<Rightarrow> Inr ((pname p, v) # rest))
          else Inl (InvalidArgument (pname p)))"

text \<open>Modelled from the spec: validation of raw arguments against a schema; "unknown
  extra parameters are rejected with \<^verbatim>\<open>InvalidArgument\<close>". The validating code is not
  under \<^verbatim>\<open>src/\<close>.\<close>

definition validate :: "parameter list \<Rightarrow> arguments \<Rightarrow> registry_error + arguments" where
  "validate schema rawArgs =
     (case filter (\<lambda>k. k \<notin> set (map pname schema)) (map fst rawArgs) of
        [] \<Rightarrow> normalize schema rawArgs
      | k # ks \<Rightarrow> Inl (InvalidArgument k))"

text \<open>Modelled from the spec: \<^verbatim>\<open>register(name, schema, handler)\<close> "fails with
  \<^verbatim>\<open>DuplicateOperation\<close> if name already exists". The registry behind
  \<^verbatim>\<open>mcp.registerTool\<close> is not under \<^verbatim>\<open>src/\<close>.\<close>

definition register :: "operation list \<Rightarrow> operation \<Rightarrow> registry_error + operation list" where
  "register registry op =
     (if op_name op \<in> set (map op_name registry) then Inl DuplicateOperation
      else Inr (registry @ [op]))"

text \<open>Modelled from the spec: \<^verbatim>\<open>invoke(name, rawArgs)\<close> "looks up name, fails with
  \<^verbatim>\<open>UnknownOperation\<close> if absent; validates rawArgs against schema; on successful
  validation, invokes handler with the normalized arguments and returns its result or
  propagates its failure as \<^verbatim>\<open>OperationFailed(cause)\<close>". The invoking code is not under
  \<^verbatim>\<open>src/\<close>.\<close>

definition invoke :: "operation list \<Rightarrow> string \<Rightarrow> arguments \<Rightarrow> registry_error + content" where
  "invoke registry name rawArgs =
     (case find (\<lambda>op. op_name op = name) registry of
        None \<Rightarrow> Inl UnknownOperation
      | Some op \<Rightarrow>
          (case validate (op_schema op) rawArgs of
             Inl e \<Rightarrow> Inl e
           | Inr args \<Rightarrow>
               (case op_handler op args of
                  Inl cause \<Rightarrow> Inl (OperationFailed cause)
                | Inr result \<Rightarrow> Inr result)))"

text \<open>The two \<^verbatim>\<open>mcp.registerTool\<close> calls of the source, with their names and schemas; the
  handlers are parameters here.\<close>

definition tools ::
  "(arguments \<Rightarrow> js_error + content) \<Rightarrow> (arguments \<Rightarrow> js_error + content) \<Rightarrow> operation list" where
  "tools listTransactions getCustomer =
     [\<lparr>op_name = ''punchh.listTransactions'', op_schema = listTransactions_inputSchema,
       op_handler = listTransactions\<rparr>,
      \<lparr>op_name = ''punchh.getCustomer'', op_schema = getCustomer_inputSchema,
       op_handler = getCustomer\<rparr>]"

section \<open>Sessions and the \<^verbatim>\<open>/mcp\<close> route\<close>

text \<open>
  The route handler is the same in both files, except that only \<^verbatim>\<open>src/server.ts\<close>
  (line 85) installs an \<^verbatim>\<open>onclose\<close> handler on a new transport. In
  \<^verbatim>\<open>src/unnamed/part_000\<close> a bearer-token middleware runs before the route; the model
  starts where the route handler starts, with a request that has passed it.
\<close>

datatype source_file = Server_ts | Part_000

text \<open>A transport, as far as this code reads it: the \<^verbatim>\<open>sessionId\<close> the transport holds
  once initialized, and whether the \<^verbatim>\<open>onclose\<close> handler of \<^verbatim>\<open>src/server.ts\<close> is
  installed on it.\<close>

record transport =
  sessionId :: "string option"
  onclose :: bool

text \<open>
  \<^verbatim>\<open>const transports: Record<string, StreamableHTTPServerTransport> = {};\<close>
  The store is a plain object: the map holds its own properties, and a read
  \<^verbatim>\<open>transports[sid]\<close> of a key that is not an own property falls through to
  \<^verbatim>\<open>Object.prototype\<close>, whose members (functions, and the prototype object itself for
  \<^verbatim>\<open>__proto__\<close>) are all truthy.
\<close>

type_synonym session_store = "string \<rightharpoonup> transport"

definition Object_prototype_names :: "string list" where
  "Object_prototype_names =
     [''constructor'', ''hasOwnProperty'', ''isPrototypeOf'', ''propertyIsEnumerable'',
      ''toLocaleString'', ''toString'', ''valueOf'', ''__proto__'',
      ''__defineGetter__'', ''__defineSetter__'', ''__lookupGetter__'', ''__lookupSetter__'']"

datatype property = Undefined | Own transport | Inherited

definition transports_get :: "session_store \<Rightarrow> string \<Rightarrow> property" where
  "transports_get transports sid =
     (case transports sid of
        Some t \<Rightarrow> Own t
      | None \<Rightarrow> if sid \<in> set Object_prototype_names then Inherited else Undefined)"

fun truthy_property :: "property \<Rightarrow> bool" where
  "truthy_property Undefined = False"
| "truthy_property (Own t) = True"
| "truthy_property Inherited = True"

text \<open>A request as the route reads it: the \<^verbatim>\<open>mcp-session-id\<close> header, and what the
  library's \<^verbatim>\<open>isInitializeRequest(req.body)\<close> answers for the body.\<close>

record request =
  session_header :: "string option"
  isInitializeRequest :: bool

definition truthy_header :: "string option \<Rightarrow> bool" where
  "truthy_header h = (case h of None \<Rightarrow> False | Some sid \<Rightarrow> sid \<noteq> [])"

text \<open>
  What the library does with a new transport is an input of the model:
  \<open>connect\<close> is the outcome of \<^verbatim>\<open>await mcp.connect(transport)\<close> on the process-wide
  server object, which resolves (\<open>None\<close>) or rejects with an error (for instance because
  the server object is still connected to an earlier transport);
  \<open>randomUUID\<close> is the value \<^verbatim>\<open>randomUUID()\<close> returns when the transport calls
  \<^verbatim>\<open>sessionIdGenerator\<close>, and \<open>handshake\<close> tells whether \<^verbatim>\<open>handleRequest\<close> completes the
  initialization (it then records the identifier as \<^verbatim>\<open>transport.sessionId\<close> and calls
  \<^verbatim>\<open>onsessioninitialized\<close> with it) or rejects the request without calling either callback.
\<close>

record environment =
  connect :: "js_error option"
  randomUUID :: string
  handshake :: bool

record reply =
  http_status :: nat
  jsonrpc_code :: int
  jsonrpc_message :: string

definition no_valid_session :: reply where
  "no_valid_session =
     \<lparr>http_status = 400, jsonrpc_code = - 32000,
      jsonrpc_message = ''Bad Request: No valid session''\<rparr>"

datatype outcome =
    Forwarded transport
  | Initialized string transport
  | NotInitialized
  | Responded reply
  | Threw js_error

text \<open>\<^verbatim>\<open>onsessioninitialized: (sid) => { transports[sid] = transport; }\<close>\<close>

definition onsessioninitialized :: "string \<Rightarrow> transport \<Rightarrow> session_store \<Rightarrow> session_store" where
  "onsessioninitialized sid transport transports = transports(sid \<mapsto> transport)"

text \<open>
  The second branch of the route: a new transport is built (with the \<^verbatim>\<open>onclose\<close> handler
  in \<^verbatim>\<open>src/server.ts\<close> only) and connected with \<^verbatim>\<open>await mcp.connect(transport)\<close>; if
  that rejects, the route handler throws before the transport sees the request. Otherwise
  the transport is given the request. The store changes only in the callback.
\<close>

definition new_transport :: "source_file \<Rightarrow> environment \<Rightarrow> session_store \<Rightarrow> outcome \<times> session_store" where
  "new_transport file env transports =
     (case connect env of
        Some e \<Rightarrow> (Threw e, transports)
      | None \<Rightarrow>
          if handshake env
          then (let sid = randomUUID env;
                    transport = \<lparr>sessionId = Some sid, onclose = (file = Server_ts)\<rparr>
                in (Initialized sid transport, onsessioninitialized sid transport transports))
          else (NotInitialized, transports))"

text \<open>
  \<^verbatim>\<open>if (sessionId && transports[sessionId]) { transport = transports[sessionId]; }\<close>
  \<^verbatim>\<open>else if (!sessionId && isInitializeRequest(req.body)) { ... }\<close>
  \<^verbatim>\<open>else { res.status(400).json({ ... code: -32000 ... }); return; }\<close>
  \<^verbatim>\<open>await transport.handleRequest(req, res, req.body);\<close>
  In the first branch, a value inherited from \<^verbatim>\<open>Object.prototype\<close> has no
  \<^verbatim>\<open>handleRequest\<close>, and calling it throws a \<^verbatim>\<open>TypeError\<close>.
\<close>

definition post_mcp ::
  "source_file \<Rightarrow> request \<Rightarrow> environment \<Rightarrow> session_store \<Rightarrow> outcome \<times> session_store" where
  "post_mcp file req env transports =
     (let sessionId = session_header req;
          found = (case sessionId of None \<Rightarrow> Undefined
                   | Some sid \<Rightarrow> transports_get transports sid)
      in if truthy_header sessionId \<and> truthy_property found
         then (case found of
                 Own transport \<Rightarrow> (Forwarded transport, transports)
               | _ \<Rightarrow> (Threw TypeError, transports))
         else if \<not> truthy_header sessionId \<and> isInitializeRequest req
         then new_transport file env transports
         else (Responded no_valid_session, transports))"

text \<open>
  The transport signals closure by calling its \<^verbatim>\<open>onclose\<close> property if one is set. In
  \<^verbatim>\<open>src/server.ts\<close> that is
  \<^verbatim>\<open>() => { if (transport.sessionId) delete transports[transport.sessionId]; }\<close>;
  \<^verbatim>\<open>src/unnamed/part_000\<close> sets none.
\<close>

definition transport_closed :: "transport \<Rightarrow> session_store \<Rightarrow> session_store" where
  "transport_closed transport transports =
     (if onclose transport
      then (case sessionId transport of
              None \<Rightarrow> transports
            | Some sid \<Rightarrow> if sid \<noteq> [] then transports(sid := None) else transports)
      else transports)"

text \<open>The identifiers returned by session creation so far, and the store, after any
  sequence of requests and closures from the start of the process.\<close>

fun issued :: "outcome \<Rightarrow> string set" where
  "issued (Initialized sid t) = {sid}"
| "issued out = {}"

inductive reachable :: "source_file \<Rightarrow> string set \<Rightarrow> session_store \<Rightarrow> bool" where
  start: "reachable file {} Map.empty"
| request: "reachable file ids transports \<Longrightarrow>
            post_mcp file req env transports = (out, transports') \<Longrightarrow>
            reachable file (ids \<union> issued out) transports'"
| closure: "reachable file ids transports \<Longrightarrow>
            transports sid = Some transport \<Longrightarrow>
            reachable file ids (transport_closed transport transports)"

section \<open>Properties of the redaction\<close>

subsection \<open>Reading and writing properties\<close>

lemma opt_member_Some: "opt_member (Some v) k = get_prop v k"
  by (cases v) (simp_all add: opt_member_def)

lemma opt_member_None: "opt_member None k = None"
  by (simp add: opt_member_def)

lemma truthy_prop_is_object:
  "truthy_opt (get_prop v k) \<Longrightarrow> \<exists>kvs. v = JObj kvs"
  by (cases v) (simp_all add: truthy_opt_def)

lemma get_prop_set_prop:
  "get_prop (set_prop (JObj kvs) k w) k' = (if k' = k then Some w else map_of kvs k')"
  by (simp add: update_conv')

lemma set_prop_triv: "get_prop v k = Some w \<Longrightarrow> set_prop v k w = v"
  by (cases v) (simp_all add: update_triv)

lemma set_prop_overwrite: "set_prop (set_prop v k a) k b = set_prop v k b"
  by (cases v) simp_all

lemma get_prop_mask_same:
  "get_prop (mask_field k w v) k = (if truthy_opt (get_prop v k) then Some w else get_prop v k)"
  by (cases v) (simp_all add: mask_field_def update_conv' truthy_opt_def)

lemma get_prop_mask_other:
  "k' \<noteq> k \<Longrightarrow> get_prop (mask_field k w v) k' = get_prop v k'"
  by (cases v) (simp_all add: mask_field_def update_conv')

lemma mask_field_fixed:
  "truthy_opt (get_prop v k) \<longrightarrow> get_prop v k = Some w \<Longrightarrow> mask_field k w v = v"
  by (auto simp: mask_field_def set_prop_triv)

lemma getCustomer_redact_mask:
  "getCustomer_redact data =
     mask_field ''phone'' (JStr ''**********'') (mask_field ''email'' (JStr ''redacted@example.com'') data)"
  by (simp add: getCustomer_redact_def mask_field_def opt_member_Some Let_def)

lemma getCustomer_redact_idem:
  "getCustomer_redact (getCustomer_redact data) = getCustomer_redact data"
proof -
  let ?m1 = "mask_field ''email'' (JStr ''redacted@example.com'')"
  let ?m2 = "mask_field ''phone'' (JStr ''**********'')"
  let ?y = "?m2 (?m1 data)"
  have "?m1 ?y = ?y"
    by (rule mask_field_fixed) (simp add: get_prop_mask_other get_prop_mask_same truthy_opt_def)
  moreover have "?m2 ?y = ?y"
    by (rule mask_field_fixed) (simp add: get_prop_mask_same truthy_opt_def)
  ultimately show ?thesis
    by (simp add: getCustomer_redact_mask)
qed

lemma getCustomer_redact_absent:
  "\<not> truthy_opt (get_prop data ''email'') \<Longrightarrow> \<not> truthy_opt (get_prop data ''phone'') \<Longrightarrow> getCustomer_redact data = data"
  by (simp add: getCustomer_redact_mask mask_field_def)

lemma assign_customer_mask:
  "get_prop t ''customer'' = Some c \<Longrightarrow>
   (if truthy_opt (opt_member (opt_member (Some t) ''customer'') k) then assign_customer t k w else t)
     = set_prop t ''customer'' (mask_field k w c)"
  by (simp add: opt_member_Some assign_customer_def mask_field_def set_prop_triv)

lemma no_customer_guard:
  "get_prop t ''customer'' = None \<Longrightarrow> \<not> truthy_opt (opt_member (opt_member (Some t) ''customer'') k)"
  by (simp add: opt_member_Some opt_member_None truthy_opt_def)

lemma get_customer_set_customer:
  "get_prop t ''customer'' = Some c \<Longrightarrow> get_prop (set_prop t ''customer'' c') ''customer'' = Some c'"
  by (cases t) (simp_all add: update_conv')

lemma redact_txn_part0_customer:
  "redact_txn_part0 t =
     (case get_prop t ''customer'' of
        None \<Rightarrow> t
      | Some c \<Rightarrow> set_prop t ''customer'' (getCustomer_redact c))"
proof (cases "get_prop t ''customer''")
  case None
  then show ?thesis
    by (simp add: redact_txn_part0_def no_customer_guard)
next
  case (Some c)
  let ?t1 = "set_prop t ''customer'' (mask_field ''email'' (JStr ''redacted@example.com'') c)"
  have c1: "get_prop ?t1 ''customer'' = Some (mask_field ''email'' (JStr ''redacted@example.com'') c)"
    using Some by (rule get_customer_set_customer)
  show ?thesis
    unfolding redact_txn_part0_def Let_def
    by (simp only: assign_customer_mask [OF Some] assign_customer_mask [OF c1] Some option.case
        set_prop_overwrite getCustomer_redact_mask)
qed

lemma redact_txn_server_part0:
  "redact_txn_server t = (if t = JNull then Inl TypeError else Inr (redact_txn_part0 t))"
proof (cases "t = JNull")
  case True
  then show ?thesis by (simp add: redact_txn_server_def member_def)
next
  case False
  have m: "member (Some v) k = Inr (opt_member (Some v) k)" if "v \<noteq> JNull" for v k
    using that by (cases v) (simp_all add: member_def opt_member_def)
  have n: "assign_customer t k w \<noteq> JNull" for k w
    using False by (cases t) (simp_all add: assign_customer_def split: option.splits)
  show ?thesis
    using False by (simp add: redact_txn_server_def redact_txn_part0_def m n Let_def)
qed


lemma redact_txn_part0_nested: "redact_txn_part0 = redact_nested_customer"
  by (rule ext) (simp add: redact_txn_part0_customer redact_nested_customer_def)

lemma redact_txn_part0_idem: "redact_txn_part0 (redact_txn_part0 t) = redact_txn_part0 t"
proof (cases "get_prop t ''customer''")
  case None
  then show ?thesis by (simp add: redact_txn_part0_customer)
next
  case (Some c)
  then show ?thesis
    by (simp add: redact_txn_part0_customer get_customer_set_customer set_prop_overwrite
        getCustomer_redact_idem)
qed

lemma redact_txn_part0_idem_comp: "redact_txn_part0 \<circ> redact_txn_part0 = redact_txn_part0"
  by (rule ext) (simp add: redact_txn_part0_idem)

lemma redact_txn_part0_not_null: "t \<noteq> JNull \<Longrightarrow> redact_txn_part0 t \<noteq> JNull"
  by (cases t) (simp_all add: redact_txn_part0_customer split: option.splits)

lemma for_of_part0_map: "for_of_part0 ts = map redact_txn_part0 ts"
  by (induction ts) simp_all

lemma for_of_server_map:
  "for_of_server ts = (if JNull \<in> set ts then Inl TypeError else Inr (map redact_txn_part0 ts))"
  by (induction ts) (auto simp: redact_txn_server_part0)

lemma get_prop_Some_set_prop:
  "get_prop d k = Some x \<Longrightarrow> get_prop (set_prop d k y) k = Some y"
  by (cases d) (simp_all add: update_conv')

lemma listTransactions_redact_part0_array:
  "get_prop data ''transactions'' = Some (JArr ts) \<Longrightarrow>
   listTransactions_redact_part0 data
     = Inr (set_prop data ''transactions'' (JArr (map redact_txn_part0 ts)))"
  by (simp add: listTransactions_redact_part0_def opt_member_Some for_of_part0_map)

lemma listTransactions_redact_server_array:
  "get_prop data ''transactions'' = Some (JArr ts) \<Longrightarrow>
   listTransactions_redact_server data
     = (if JNull \<in> set ts then Inl TypeError
        else Inr (set_prop data ''transactions'' (JArr (map redact_txn_part0 ts))))"
  by (simp add: listTransactions_redact_server_def opt_member_Some for_of_server_map)

lemma string_chars_not_null: "JNull \<notin> set (map (\<lambda>c. JStr [c]) s)"
  by auto

lemma listTransactions_redact_part0_other:
  "\<forall>ts. get_prop data ''transactions'' \<noteq> Some (JArr ts) \<Longrightarrow>
   listTransactions_redact_part0 data = Inr data \<or> listTransactions_redact_part0 data = Inl TypeError"
  by (simp add: listTransactions_redact_part0_def opt_member_Some split: option.splits json.splits)

lemma listTransactions_redact_server_other:
  "\<forall>ts. get_prop data ''transactions'' \<noteq> Some (JArr ts) \<Longrightarrow>
   listTransactions_redact_server data = Inr data \<or> listTransactions_redact_server data = Inl TypeError"
  by (simp add: listTransactions_redact_server_def opt_member_Some for_of_server_map
      split: option.splits json.splits)

lemma listTransactions_redact_part0_idem:
  "and_then (listTransactions_redact_part0 data) listTransactions_redact_part0
     = listTransactions_redact_part0 data"
proof (cases "\<exists>ts. get_prop data ''transactions'' = Some (JArr ts)")
  case True
  then obtain ts where ts: "get_prop data ''transactions'' = Some (JArr ts)" by blast
  let ?d = "set_prop data ''transactions'' (JArr (map redact_txn_part0 ts))"
  have "get_prop ?d ''transactions'' = Some (JArr (map redact_txn_part0 ts))"
    using ts by (rule get_prop_Some_set_prop)
  then have "listTransactions_redact_part0 ?d = Inr ?d"
    by (simp add: listTransactions_redact_part0_array set_prop_overwrite redact_txn_part0_idem_comp)
  then show ?thesis
    by (simp add: listTransactions_redact_part0_array [OF ts] and_then_def)
next
  case False
  then have "\<forall>ts. get_prop data ''transactions'' \<noteq> Some (JArr ts)" by simp
  from listTransactions_redact_part0_other [OF this] show ?thesis
    by (auto simp: and_then_def)
qed

lemma listTransactions_redact_server_idem:
  "and_then (listTransactions_redact_server data) listTransactions_redact_server
     = listTransactions_redact_server data"
proof (cases "\<exists>ts. get_prop data ''transactions'' = Some (JArr ts)")
  case True
  then obtain ts where ts: "get_prop data ''transactions'' = Some (JArr ts)" by blast
  show ?thesis
  proof (cases "JNull \<in> set ts")
    case True
    then show ?thesis
      by (simp add: listTransactions_redact_server_array [OF ts] and_then_def)
  next
    case False
    let ?d = "set_prop data ''transactions'' (JArr (map redact_txn_part0 ts))"
    have g: "get_prop ?d ''transactions'' = Some (JArr (map redact_txn_part0 ts))"
      using ts by (rule get_prop_Some_set_prop)
    have n: "JNull \<notin> set (map redact_txn_part0 ts)"
    proof
      assume "JNull \<in> set (map redact_txn_part0 ts)"
      then obtain t where t: "t \<in> set ts" "redact_txn_part0 t = JNull"
        by auto
      with redact_txn_part0_not_null [of t] have "t = JNull" by blast
      with t False show False by simp
    qed
    have m: "map redact_txn_part0 (map redact_txn_part0 ts) = map redact_txn_part0 ts"
      by (simp add: redact_txn_part0_idem)
    have "listTransactions_redact_server ?d
            = Inr (set_prop ?d ''transactions'' (JArr (map redact_txn_part0 ts)))"
      unfolding listTransactions_redact_server_array [OF g] m using n by (simp only: if_False)
    then have "listTransactions_redact_server ?d = Inr ?d"
      by (simp only: set_prop_overwrite)
    then show ?thesis
      using False by (simp add: listTransactions_redact_server_array [OF ts] and_then_def)
  qed
next
  case False
  then have "\<forall>ts. get_prop data ''transactions'' \<noteq> Some (JArr ts)" by simp
  from listTransactions_redact_server_other [OF this] show ?thesis
    by (auto simp: and_then_def)
qed

lemma nested_customer_redacted:
  "get_prop t ''customer'' = Some c \<Longrightarrow>
   get_prop (redact_nested_customer t) ''customer'' = Some (getCustomer_redact c)"
  by (simp add: redact_nested_customer_def get_customer_set_customer)

lemma getCustomer_redact_fields:
  "get_prop (getCustomer_redact c) ''email''
     = (if truthy_opt (get_prop c ''email'') then Some (JStr ''redacted@example.com'')
        else get_prop c ''email'')"
  "get_prop (getCustomer_redact c) ''phone''
     = (if truthy_opt (get_prop c ''phone'') then Some (JStr ''**********'')
        else get_prop c ''phone'')"
  by (simp_all add: getCustomer_redact_mask get_prop_mask_same get_prop_mask_other)

subsection \<open>What the redaction guarantees\<close>

text \<open>
  C5, as amended. Whenever redaction returns, a customer record's \<^verbatim>\<open>email\<close> field that is
  present with a truthy value (a non-empty string, a non-zero number, \<^verbatim>\<open>true\<close>, an array
  or an object) is replaced by \<^verbatim>\<open>redacted@example.com\<close>, and its \<^verbatim>\<open>phone\<close> field, under
  the same condition, by the ten-character mask \<^verbatim>\<open>**********\<close>. A field that is absent or
  falsy (empty string, \<^verbatim>\<open>null\<close>, 0, \<^verbatim>\<open>false\<close>) is left as it is, as is every other field
  of the record; a record with neither field truthy comes out unchanged. This is applied
  uniformly: \<^verbatim>\<open>punchh.getCustomer\<close> does it to its payload, and \<^verbatim>\<open>punchh.listTransactions\<close>
  of either source file, on a payload whose \<^verbatim>\<open>transactions\<close> is an array, does exactly the
  same to the \<^verbatim>\<open>customer\<close> record nested in each element, and leaves an element without
  such a record as it is. The version of \<^verbatim>\<open>src/unnamed/part_000\<close> always returns on such a
  payload; for that of \<^verbatim>\<open>src/server.ts\<close> the statement speaks of the runs that return.
\<close>

theorem redaction_masks_truthy_fields:
  "(truthy_opt (get_prop c ''email'') \<longrightarrow>
      get_prop (getCustomer_redact c) ''email'' = Some (JStr ''redacted@example.com''))
 \<and> (truthy_opt (get_prop c ''phone'') \<longrightarrow>
      get_prop (getCustomer_redact c) ''phone'' = Some (JStr ''**********''))
 \<and> (\<not> truthy_opt (get_prop c ''email'') \<longrightarrow>
      get_prop (getCustomer_redact c) ''email'' = get_prop c ''email'')
 \<and> (\<not> truthy_opt (get_prop c ''phone'') \<longrightarrow>
      get_prop (getCustomer_redact c) ''phone'' = get_prop c ''phone'')
 \<and> (k \<noteq> ''email'' \<and> k \<noteq> ''phone'' \<longrightarrow>
      get_prop (getCustomer_redact c) k = get_prop c k)
 \<and> (\<not> truthy_opt (get_prop c ''email'') \<and> \<not> truthy_opt (get_prop c ''phone'') \<longrightarrow>
      getCustomer_redact c = c)
 \<and> (get_prop t ''customer'' = Some c \<longrightarrow>
      redact_nested_customer t = set_prop t ''customer'' (getCustomer_redact c)
      \<and> get_prop (redact_nested_customer t) ''customer'' = Some (getCustomer_redact c))
 \<and> (get_prop t ''customer'' = None \<longrightarrow> redact_nested_customer t = t)
 \<and> (get_prop data ''transactions'' = Some (JArr ts) \<longrightarrow>
      listTransactions_redact_part0 data
        = Inr (set_prop data ''transactions'' (JArr (map redact_nested_customer ts)))
      \<and> (listTransactions_redact_server data = Inr data' \<longrightarrow>
           data' = set_prop data ''transactions'' (JArr (map redact_nested_customer ts))))"
proof -
  have fields: "(truthy_opt (get_prop c ''email'') \<longrightarrow>
        get_prop (getCustomer_redact c) ''email'' = Some (JStr ''redacted@example.com''))
     \<and> (truthy_opt (get_prop c ''phone'') \<longrightarrow>
        get_prop (getCustomer_redact c) ''phone'' = Some (JStr ''**********''))
     \<and> (\<not> truthy_opt (get_prop c ''email'') \<longrightarrow>
        get_prop (getCustomer_redact c) ''email'' = get_prop c ''email'')
     \<and> (\<not> truthy_opt (get_prop c ''phone'') \<longrightarrow>
        get_prop (getCustomer_redact c) ''phone'' = get_prop c ''phone'')"
    by (simp add: getCustomer_redact_fields)
  have others: "k \<noteq> ''email'' \<and> k \<noteq> ''phone'' \<longrightarrow>
        get_prop (getCustomer_redact c) k = get_prop c k"
    by (simp add: getCustomer_redact_mask get_prop_mask_other)
  have same: "\<not> truthy_opt (get_prop c ''email'') \<and> \<not> truthy_opt (get_prop c ''phone'') \<longrightarrow>
        getCustomer_redact c = c"
    by (simp add: getCustomer_redact_absent)
  have nested: "get_prop t ''customer'' = Some c \<longrightarrow>
        redact_nested_customer t = set_prop t ''customer'' (getCustomer_redact c)
        \<and> get_prop (redact_nested_customer t) ''customer'' = Some (getCustomer_redact c)"
    by (simp add: nested_customer_redacted) (simp add: redact_nested_customer_def)
  have none: "get_prop t ''customer'' = None \<longrightarrow> redact_nested_customer t = t"
    by (simp add: redact_nested_customer_def)
  have loops: "get_prop data ''transactions'' = Some (JArr ts) \<longrightarrow>
      listTransactions_redact_part0 data
        = Inr (set_prop data ''transactions'' (JArr (map redact_nested_customer ts)))
      \<and> (listTransactions_redact_server data = Inr data' \<longrightarrow>
           data' = set_prop data ''transactions'' (JArr (map redact_nested_customer ts)))"
    by (simp add: listTransactions_redact_part0_array listTransactions_redact_server_array
        redact_txn_part0_nested split: if_splits)
  from fields others same nested none loops show ?thesis
    by blast
qed

text \<open>The theorem at a payload with two transactions, the first with a customer that has
  an email and a phone number, the second without a customer: the two fields are masked,
  by both versions of the loop, and the rest is as before; and at a customer record whose
  email is the empty string and whose phone is \<^verbatim>\<open>null\<close>: it comes out unchanged.\<close>

theorem redaction_masks_truthy_fields_witness:
  "truthy_opt (get_prop (JObj [(''id'', JNum 7), (''email'', JStr ''a@b.c''),
                               (''phone'', JStr ''555-0100'')]) ''email'')
 \<and> truthy_opt (get_prop (JObj [(''id'', JNum 7), (''email'', JStr ''a@b.c''),
                               (''phone'', JStr ''555-0100'')]) ''phone'')
 \<and> getCustomer_redact (JObj [(''id'', JNum 7), (''email'', JStr ''a@b.c''),
                               (''phone'', JStr ''555-0100'')])
      = JObj [(''id'', JNum 7), (''email'', JStr ''redacted@example.com''),
              (''phone'', JStr ''**********'')]
 \<and> \<not> truthy_opt (get_prop (JObj [(''id'', JNum 8), (''email'', JStr []),
                                 (''phone'', JNull)]) ''email'')
 \<and> \<not> truthy_opt (get_prop (JObj [(''id'', JNum 8), (''email'', JStr []),
                                 (''phone'', JNull)]) ''phone'')
 \<and> getCustomer_redact (JObj [(''id'', JNum 8), (''email'', JStr []), (''phone'', JNull)])
      = JObj [(''id'', JNum 8), (''email'', JStr []), (''phone'', JNull)]
 \<and> listTransactions_redact_server
      (JObj [(''transactions'',
              JArr [JObj [(''amount'', JNum 12),
                          (''customer'', JObj [(''id'', JNum 7), (''email'', JStr ''a@b.c''),
                                               (''phone'', JStr ''555-0100'')])],
                    JObj [(''amount'', JNum 3)]])])
      = Inr (JObj [(''transactions'',
              JArr [JObj [(''amount'', JNum 12),
                          (''customer'', JObj [(''id'', JNum 7),
                                               (''email'', JStr ''redacted@example.com''),
                                               (''phone'', JStr ''**********'')])],
                    JObj [(''amount'', JNum 3)]])])
 \<and> listTransactions_redact_part0
      (JObj [(''transactions'',
              JArr [JObj [(''amount'', JNum 12),
                          (''customer'', JObj [(''id'', JNum 7), (''email'', JStr ''a@b.c''),
                                               (''phone'', JStr ''555-0100'')])],
                    JObj [(''amount'', JNum 3)]])])
      = Inr (JObj [(''transactions'',
              JArr [JObj [(''amount'', JNum 12),
                          (''customer'', JObj [(''id'', JNum 7),
                                               (''email'', JStr ''redacted@example.com''),
                                               (''phone'', JStr ''**********'')])],
                    JObj [(''amount'', JNum 3)]])])"
proof -
  let ?c = "JObj [(''id'', JNum 7), (''email'', JStr ''a@b.c''), (''phone'', JStr ''555-0100'')]"
  let ?c' = "JObj [(''id'', JNum 7), (''email'', JStr ''redacted@example.com''),
                   (''phone'', JStr ''**********'')]"
  let ?f = "JObj [(''id'', JNum 8), (''email'', JStr []), (''phone'', JNull)]"
  let ?t = "JObj [(''amount'', JNum 12), (''customer'', ?c)]"
  let ?t' = "JObj [(''amount'', JNum 12), (''customer'', ?c')]"
  let ?v = "JObj [(''amount'', JNum 3)]"
  let ?d = "JObj [(''transactions'', JArr [?t, ?v])]"
  let ?d' = "JObj [(''transactions'', JArr [?t', ?v])]"
  have e: "truthy_opt (get_prop ?c ''email'')" and p: "truthy_opt (get_prop ?c ''phone'')"
    by (simp_all add: truthy_opt_def)
  have fe: "\<not> truthy_opt (get_prop ?f ''email'')" and fp: "\<not> truthy_opt (get_prop ?f ''phone'')"
    by (simp_all add: truthy_opt_def)
  have c: "get_prop ?t ''customer'' = Some ?c" and v: "get_prop ?v ''customer'' = None"
    and d: "get_prop ?d ''transactions'' = Some (JArr [?t, ?v])"
    by simp_all
  have g: "getCustomer_redact ?c = ?c'"
    by (simp add: getCustomer_redact_def opt_member_def truthy_opt_def)
  have n: "redact_nested_customer ?t = ?t'"
    using redaction_masks_truthy_fields [of ?c "''id''" ?t ?d "[?t, ?v]" ?d'] c
    by (simp add: g)
  have nv: "redact_nested_customer ?v = ?v"
    using redaction_masks_truthy_fields [of ?c "''id''" ?v ?d "[?t, ?v]" ?d'] v
    by simp
  have u: "getCustomer_redact ?f = ?f"
    using redaction_masks_truthy_fields [of ?f "''id''" ?t ?d "[?t, ?v]" ?d'] fe fp
    by blast
  have s: "listTransactions_redact_server ?d = Inr ?d'"
    by (simp add: listTransactions_redact_server_array [OF d] redact_txn_part0_nested n nv)
  have l: "listTransactions_redact_part0 ?d = Inr ?d'"
    using redaction_masks_truthy_fields [of ?c "''id''" ?t ?d "[?t, ?v]" ?d'] d
    by (simp add: n nv)
  from e p g fe fp u s l show ?thesis
    by (intro conjI)
qed

text \<open>C5 as stated fails: an \<^verbatim>\<open>email\<close> field holding the empty string, and a \<^verbatim>\<open>phone\<close>
  field holding \<^verbatim>\<open>null\<close>, are fields of the customer record that the guards
  \<^verbatim>\<open>if (data?.email)\<close> and \<^verbatim>\<open>if (data?.phone)\<close> skip. They come out as they went in.\<close>

theorem redaction_keeps_falsy_fields:
  "get_prop (getCustomer_redact (JObj [(''email'', JStr []), (''phone'', JNull)])) ''email''
     \<noteq> Some (JStr ''redacted@example.com'')
 \<and> get_prop (getCustomer_redact (JObj [(''email'', JStr []), (''phone'', JNull)])) ''phone''
     \<noteq> Some (JStr ''**********'')
 \<and> getCustomer_redact (JObj [(''email'', JStr []), (''phone'', JNull)])
     = JObj [(''email'', JStr []), (''phone'', JNull)]"
  by (simp add: getCustomer_redact_def opt_member_def truthy_opt_def)

text \<open>
  C6. Redaction is idempotent (the three lemmas \<open>getCustomer_redact_idem\<close>,
  \<open>listTransactions_redact_part0_idem\<close> and \<open>listTransactions_redact_server_idem\<close> above), and
  \<^verbatim>\<open>punchh.getCustomer\<close> leaves a payload without the two fields unchanged
  (\<open>getCustomer_redact_absent\<close>). The second half of the claim fails in
  \<^verbatim>\<open>punchh.listTransactions\<close> of \<^verbatim>\<open>src/server.ts\<close>: the payload
  \<^verbatim>\<open>{"transactions": [null]}\<close> holds no email and no phone field anywhere, and the loop
  throws a \<^verbatim>\<open>TypeError\<close> on it (reading \<^verbatim>\<open>t.customer\<close> of \<^verbatim>\<open>null\<close>) instead of returning it
  unchanged, as the loop of \<^verbatim>\<open>src/unnamed/part_000\<close> does.
\<close>

theorem redaction_not_identity_on_null_transaction:
  "listTransactions_redact_server (JObj [(''transactions'', JArr [JNull])])
     \<noteq> Inr (JObj [(''transactions'', JArr [JNull])])
 \<and> listTransactions_redact_part0 (JObj [(''transactions'', JArr [JNull])])
     = Inr (JObj [(''transactions'', JArr [JNull])])"
  by (simp add: listTransactions_redact_server_def listTransactions_redact_part0_def
      opt_member_def member_def redact_txn_server_def redact_txn_part0_def truthy_opt_def)

text \<open>
  C7. The redaction of \<^verbatim>\<open>punchh.listTransactions\<close> is not total. In \<^verbatim>\<open>src/server.ts\<close> a
  \<^verbatim>\<open>null\<close> element of the transactions list makes the loop body throw a \<^verbatim>\<open>TypeError\<close>,
  where \<^verbatim>\<open>src/unnamed/part_000\<close> guards the read with \<^verbatim>\<open>t?.customer\<close>. In both files a
  \<^verbatim>\<open>transactions\<close> value that is a number (or a boolean, or an object) is not iterable and
  makes \<^verbatim>\<open>for ... of\<close> throw.
\<close>

theorem redaction_throws_TypeError:
  "listTransactions_redact_server (JObj [(''transactions'', JArr [JNull])]) = Inl TypeError
 \<and> listTransactions_redact_server (JObj [(''transactions'', JNum 5)]) = Inl TypeError
 \<and> listTransactions_redact_part0 (JObj [(''transactions'', JNum 5)]) = Inl TypeError"
  by (simp add: listTransactions_redact_server_def listTransactions_redact_part0_def
      opt_member_def member_def redact_txn_server_def)

section \<open>Properties of the upstream calls\<close>

lemma and_then_Inl: "and_then (Inl e) f = Inl e"
  by (simp add: and_then_def)

lemma upstream_json_failure:
  "status r < 200 \<or> 299 < status r \<Longrightarrow>
   upstream_json (Resolved r) = Inl (Error (''Punchh error '' @ show_nat (status r)))"
  by (auto simp: upstream_json_def ok_def)

text \<open>The decimal digits determine the number: a status code can be read back from the
  message that carries it.\<close>

lemma digit_char_inj: "a < 10 \<Longrightarrow> b < 10 \<Longrightarrow> digit_char a = digit_char b \<Longrightarrow> a = b"
proof -
  assume a: "a < 10" and b: "b < 10" and e: "digit_char a = digit_char b"
  have d: "distinct ''0123456789''" by simp
  have "a < length ''0123456789''" "b < length ''0123456789''"
    using a b by simp_all
  with d e show ?thesis
    unfolding digit_char_def by (simp only: nth_eq_iff_index_eq)
qed

lemma show_nat_not_empty: "show_nat n \<noteq> []"
  by (subst show_nat.simps) simp

lemma show_nat_inj: "show_nat a = show_nat b \<Longrightarrow> a = b"
proof (induction a arbitrary: b rule: show_nat.induct)
  case (1 n)
  show ?case
  proof (cases "n < 10")
    case True
    show ?thesis
    proof (cases "b < 10")
      case b: True
      from "1.prems" True b have "digit_char n = digit_char b"
        by (simp add: show_nat.simps)
      with True b show ?thesis by (rule digit_char_inj)
    next
      case b: False
      from "1.prems" True b have "[digit_char n] = show_nat (b div 10) @ [digit_char (b mod 10)]"
        by (simp add: show_nat.simps [of n] show_nat.simps [of b])
      then have "show_nat (b div 10) = []" by simp
      with show_nat_not_empty show ?thesis by blast
    qed
  next
    case False
    show ?thesis
    proof (cases "b < 10")
      case b: True
      from "1.prems" False b have "show_nat (n div 10) @ [digit_char (n mod 10)] = [digit_char b]"
        by (simp add: show_nat.simps [of n] show_nat.simps [of b])
      then have "show_nat (n div 10) = []" by simp
      with show_nat_not_empty show ?thesis by blast
    next
      case b: False
      from "1.prems" False b
      have "show_nat (n div 10) @ [digit_char (n mod 10)]
              = show_nat (b div 10) @ [digit_char (b mod 10)]"
        by (simp add: show_nat.simps [of n] show_nat.simps [of b])
      then have p: "show_nat (n div 10) = show_nat (b div 10)"
        and q: "digit_char (n mod 10) = digit_char (b mod 10)"
        by simp_all
      from "1.IH" [OF False p] have "n div 10 = b div 10" .
      moreover have "n mod 10 = b mod 10"
        using q by (intro digit_char_inj) simp_all
      ultimately show ?thesis
        by (metis div_mult_mod_eq)
    qed
  qed
qed

text \<open>
  C9. When the upstream response has a status outside 200..299, each of the four handlers
  (both tools, both source files) fails with the error whose message is
  \<^verbatim>\<open>Punchh error\<close> followed by the decimal status code. The result is the error alone: no
  content, and no part of the response body, is returned.
\<close>

theorem upstream_failure_carries_status:
  assumes "status r < 200 \<or> 299 < status r"
  shows "(fetch (getCustomer_url base cid) (''Bearer '' @ tok) = Resolved r \<longrightarrow>
            getCustomer_server base tok fetch cid
              = Inl (Error (''Punchh error '' @ show_nat (status r)))
          \<and> getCustomer_part0 base tok fetch cid
              = Inl (Error (''Punchh error '' @ show_nat (status r))))
       \<and> (fetch (listTransactions_url_server base cid lmt) (''Bearer '' @ tok) = Resolved r \<longrightarrow>
            listTransactions_server base tok fetch cid lmt
              = Inl (Error (''Punchh error '' @ show_nat (status r))))
       \<and> (fetch (listTransactions_url_part0 base cid lmt) (''Bearer '' @ tok) = Resolved r \<longrightarrow>
            listTransactions_part0 base tok fetch cid lmt
              = Inl (Error (''Punchh error '' @ show_nat (status r))))"
  using upstream_json_failure [OF assms]
  by (simp add: getCustomer_server_def getCustomer_part0_def listTransactions_server_def
      listTransactions_part0_def and_then_Inl)

text \<open>The theorem at an upstream that answers every request with status 503 and a body
  holding an email: the four handlers fail with \<^verbatim>\<open>Punchh error 503\<close>.\<close>

theorem upstream_failure_carries_status_witness:
  "((503::nat) < 200 \<or> 299 < (503::nat))
 \<and> getCustomer_server ''https://sandbox.punchh.com'' ''tok''
      (\<lambda>u a. Resolved \<lparr>status = 503, parsed_body = Some (JObj [(''email'', JStr ''a@b.c'')])\<rparr>)
      ''42'' = Inl (Error ''Punchh error 503'')
 \<and> getCustomer_part0 ''https://sandbox.punchh.com'' ''tok''
      (\<lambda>u a. Resolved \<lparr>status = 503, parsed_body = Some (JObj [(''email'', JStr ''a@b.c'')])\<rparr>)
      ''42'' = Inl (Error ''Punchh error 503'')
 \<and> listTransactions_server ''https://sandbox.punchh.com'' ''tok''
      (\<lambda>u a. Resolved \<lparr>status = 503, parsed_body = Some (JObj [(''email'', JStr ''a@b.c'')])\<rparr>)
      ''42'' 25 = Inl (Error ''Punchh error 503'')
 \<and> listTransactions_part0 ''https://sandbox.punchh.com'' ''tok''
      (\<lambda>u a. Resolved \<lparr>status = 503, parsed_body = Some (JObj [(''email'', JStr ''a@b.c'')])\<rparr>)
      ''42'' 25 = Inl (Error ''Punchh error 503'')"
proof -
  let ?r = "\<lparr>status = 503, parsed_body = Some (JObj [(''email'', JStr ''a@b.c'')])\<rparr>"
  have h: "status ?r < 200 \<or> 299 < status ?r" by simp
  have s: "show_nat 503 = ''503''"
    by (simp add: show_nat.simps digit_char_def)
  show ?thesis
    using upstream_failure_carries_status [OF h, of "\<lambda>u a. Resolved ?r"
        "''https://sandbox.punchh.com''" "''42''" "''tok''" 25]
    by (simp add: s)
qed

subsection \<open>Escaping of the customer identifier\<close>

lemma hex_digit_unreserved: "d < 16 \<Longrightarrow> unreserved (hex_digit d)"
proof -
  assume "d < 16"
  then have "hex_digit d \<in> set ''0123456789ABCDEF''"
    unfolding hex_digit_def by (intro nth_mem) simp
  then show ?thesis
    by (auto simp: unreserved_def)
qed

lemma percent_encode_chars:
  "c \<in> set (percent_encode x) \<Longrightarrow> unreserved c \<or> c = CHR ''%''"
proof -
  have "(of_char x :: nat) < 256" by (rule nat_of_char_less_256)
  then have b: "(of_char x :: nat) div 16 < 16" by arith
  have m: "(of_char x :: nat) mod 16 < 16" by simp
  assume "c \<in> set (percent_encode x)"
  then show ?thesis
    using hex_digit_unreserved [OF b] hex_digit_unreserved [OF m]
    by (auto simp: percent_encode_def)
qed

lemma encodeURIComponent_chars:
  "c \<in> set (encodeURIComponent s) \<Longrightarrow> unreserved c \<or> c = CHR ''%''"
  by (auto simp: encodeURIComponent_def dest: percent_encode_chars split: if_splits)

lemma encodeURIComponent_no_separator:
  "CHR ''/'' \<notin> set (encodeURIComponent s) \<and> CHR ''?'' \<notin> set (encodeURIComponent s)
   \<and> CHR ''#'' \<notin> set (encodeURIComponent s)"
proof -
  have "\<not> (unreserved (CHR ''/'') \<or> CHR ''/'' = CHR ''%'')"
    "\<not> (unreserved (CHR ''?'') \<or> CHR ''?'' = CHR ''%'')"
    "\<not> (unreserved (CHR ''#'') \<or> CHR ''#'' = CHR ''%'')"
    by (simp_all add: unreserved_def)
  then show ?thesis
    using encodeURIComponent_chars by blast
qed

text \<open>
  C10. \<^verbatim>\<open>punchh.getCustomer\<close> (both files) and \<^verbatim>\<open>punchh.listTransactions\<close> of
  \<^verbatim>\<open>src/unnamed/part_000\<close> embed \<^verbatim>\<open>encodeURIComponent(customer_id)\<close> in the path;
  \<^verbatim>\<open>punchh.listTransactions\<close> of \<^verbatim>\<open>src/server.ts\<close> (line 29) embeds \<^verbatim>\<open>customer_id\<close> as it
  is. For the identifier \<^verbatim>\<open>a/b\<close> the escaped form is \<^verbatim>\<open>a%2Fb\<close>, and the URL built by
  \<^verbatim>\<open>src/server.ts\<close> holds the raw \<^verbatim>\<open>a/b\<close>, an extra path segment.
\<close>

theorem listTransactions_url_server_unescaped:
  "listTransactions_url_server ''https://sandbox.punchh.com'' ''a/b'' 25
     = ''https://sandbox.punchh.com/api/v2/customers/a/b/transactions?limit=25''
 \<and> listTransactions_url_part0 ''https://sandbox.punchh.com'' ''a/b'' 25
     = ''https://sandbox.punchh.com/api/v2/customers/a%2Fb/transactions?limit=25''
 \<and> getCustomer_url ''https://sandbox.punchh.com'' ''a/b''
     = ''https://sandbox.punchh.com/api/v2/customers/a%2Fb''
 \<and> encodeURIComponent ''a/b'' = ''a%2Fb''"
  by (simp add: listTransactions_url_server_def listTransactions_url_part0_def
      getCustomer_url_def show_int_def show_nat.simps digit_char_def
      encodeURIComponent_def unreserved_def percent_encode_def hex_digit_def)

section \<open>Properties of the operation registry\<close>

lemma register_tools:
  "register [] (hd (tools hT hC)) = Inr [hd (tools hT hC)]"
  "register [hd (tools hT hC)] (tools hT hC ! 1) = Inr (tools hT hC)"
  "register (tools hT hC) (hd (tools hT hC)) = Inl DuplicateOperation"
  by (simp_all add: register_def tools_def)

lemma invoke_unknown: "invoke (tools hT hC) ''punchh.deleteCustomer'' rawArgs = Inl UnknownOperation"
  by (simp add: invoke_def tools_def)

text \<open>
  C8. On the schemas of the source, with the validation read from the specification:
  an invocation of either tool with \<^verbatim>\<open>customer_id\<close> a string (and, for
  \<^verbatim>\<open>punchh.listTransactions\<close>, \<^verbatim>\<open>limit\<close> an integer from 1 to 100) passes validation, so
  that the handler runs on exactly these arguments and its outcome is the outcome of the
  invocation; without \<^verbatim>\<open>customer_id\<close> the invocation fails with \<^verbatim>\<open>MissingArgument\<close>; without
  \<^verbatim>\<open>limit\<close> the handler runs with \<^verbatim>\<open>limit\<close> 25; with an integer \<^verbatim>\<open>limit\<close> below 1 or above
  100 the invocation fails with \<^verbatim>\<open>InvalidArgument\<close>.
\<close>

theorem invoke_validates_arguments:
  "(1 \<le> l \<and> l \<le> 100 \<longrightarrow>
      invoke (tools hT hC) ''punchh.listTransactions''
         [(''customer_id'', JStr cid), (''limit'', JNum (of_int l))]
        = (case hT [(''customer_id'', JStr cid), (''limit'', JNum (of_int l))] of
             Inl cause \<Rightarrow> Inl (OperationFailed cause) | Inr result \<Rightarrow> Inr result))
   \<and> invoke (tools hT hC) ''punchh.getCustomer'' [(''customer_id'', JStr cid)]
        = (case hC [(''customer_id'', JStr cid)] of
             Inl cause \<Rightarrow> Inl (OperationFailed cause) | Inr result \<Rightarrow> Inr result)
   \<and> invoke (tools hT hC) ''punchh.listTransactions'' [(''limit'', JNum (of_int l))]
        = Inl (MissingArgument ''customer_id'')
   \<and> invoke (tools hT hC) ''punchh.getCustomer'' [] = Inl (MissingArgument ''customer_id'')
   \<and> invoke (tools hT hC) ''punchh.listTransactions'' [(''customer_id'', JStr cid)]
        = (case hT [(''customer_id'', JStr cid), (''limit'', JNum 25)] of
             Inl cause \<Rightarrow> Inl (OperationFailed cause) | Inr result \<Rightarrow> Inr result)
   \<and> (l < 1 \<or> 100 < l \<longrightarrow>
      invoke (tools hT hC) ''punchh.listTransactions''
         [(''customer_id'', JStr cid), (''limit'', JNum (of_int l))]
        = Inl (InvalidArgument ''limit''))"
  by (auto simp: invoke_def tools_def validate_def listTransactions_inputSchema_def
      getCustomer_inputSchema_def satisfies_def)

text \<open>The theorem at the limits 50, 0 and 500, with handlers that return their arguments:
  50 is passed on, a missing limit becomes 25, 0 and 500 are refused.\<close>

theorem invoke_validates_arguments_witness:
  "((1::int) \<le> 50 \<and> (50::int) \<le> 100)
 \<and> invoke (tools (\<lambda>args. Inr (JsonContent (JObj args))) (\<lambda>args. Inr (JsonContent (JObj args))))
      ''punchh.listTransactions'' [(''customer_id'', JStr ''42''), (''limit'', JNum 50)]
     = Inr (JsonContent (JObj [(''customer_id'', JStr ''42''), (''limit'', JNum 50)]))
 \<and> invoke (tools (\<lambda>args. Inr (JsonContent (JObj args))) (\<lambda>args. Inr (JsonContent (JObj args))))
      ''punchh.listTransactions'' [(''customer_id'', JStr ''42'')]
     = Inr (JsonContent (JObj [(''customer_id'', JStr ''42''), (''limit'', JNum 25)]))
 \<and> ((0::int) < 1 \<or> (100::int) < 0)
 \<and> invoke (tools (\<lambda>args. Inr (JsonContent (JObj args))) (\<lambda>args. Inr (JsonContent (JObj args))))
      ''punchh.listTransactions'' [(''customer_id'', JStr ''42''), (''limit'', JNum 0)]
     = Inl (InvalidArgument ''limit'')
 \<and> ((500::int) < 1 \<or> (100::int) < 500)
 \<and> invoke (tools (\<lambda>args. Inr (JsonContent (JObj args))) (\<lambda>args. Inr (JsonContent (JObj args))))
      ''punchh.listTransactions'' [(''customer_id'', JStr ''42''), (''limit'', JNum 500)]
     = Inl (InvalidArgument ''limit'')
 \<and> invoke (tools (\<lambda>args. Inr (JsonContent (JObj args))) (\<lambda>args. Inr (JsonContent (JObj args))))
      ''punchh.listTransactions'' [(''limit'', JNum 50)]
     = Inl (MissingArgument ''customer_id'')"
  using invoke_validates_arguments [of 50 "\<lambda>args. Inr (JsonContent (JObj args))"
        "\<lambda>args. Inr (JsonContent (JObj args))" "''42''"]
    invoke_validates_arguments [of 0 "\<lambda>args. Inr (JsonContent (JObj args))"
        "\<lambda>args. Inr (JsonContent (JObj args))" "''42''"]
    invoke_validates_arguments [of 500 "\<lambda>args. Inr (JsonContent (JObj args))"
        "\<lambda>args. Inr (JsonContent (JObj args))" "''42''"]
  by simp

section \<open>Properties of the session store and the route\<close>

subsection \<open>Invariant of the store\<close>

lemma post_mcp_store:
  "post_mcp fl req env st = (out, st') \<Longrightarrow>
     st' = st \<and> issued out = {}
   \<or> (\<exists>t. out = Initialized (randomUUID env) t \<and> st' = st(randomUUID env \<mapsto> t)
          \<and> sessionId t = Some (randomUUID env) \<and> onclose t = (fl = Server_ts))"
  by (auto simp: post_mcp_def new_transport_def onsessioninitialized_def Let_def
      split: if_splits property.splits option.splits)

text \<open>Every entry of a reachable store sits under an identifier that session creation has
  returned, and holds a transport that carries this very identifier.\<close>

lemma reachable_invariant:
  "reachable fl ids st \<Longrightarrow> st sid = Some t \<Longrightarrow>
     sid \<in> ids \<and> sessionId t = Some sid \<and> onclose t = (fl = Server_ts)"
proof (induction arbitrary: sid t rule: reachable.induct)
  case (start fl)
  then show ?case by simp
next
  case (request fl ids transports req env out transports')
  from post_mcp_store [OF request.hyps(2)] show ?case
  proof
    assume "transports' = transports \<and> issued out = {}"
    with request.IH request.prems show ?thesis by simp
  next
    assume "\<exists>t. out = Initialized (randomUUID env) t
                \<and> transports' = transports(randomUUID env \<mapsto> t)
                \<and> sessionId t = Some (randomUUID env) \<and> onclose t = (fl = Server_ts)"
    then obtain t' where t': "out = Initialized (randomUUID env) t'"
      "transports' = transports(randomUUID env \<mapsto> t')"
      "sessionId t' = Some (randomUUID env)" "onclose t' = (fl = Server_ts)"
      by blast
    show ?thesis
    proof (cases "sid = randomUUID env")
      case True
      with t' request.prems show ?thesis by simp
    next
      case False
      with t' request.prems have "transports sid = Some t" by simp
      with request.IH t' show ?thesis by simp
    qed
  qed
next
  case (closure fl ids transports sid' transport)
  from closure.prems have "transports sid = Some t"
    by (auto simp: transport_closed_def split: if_splits option.splits)
  with closure.IH show ?case by simp
qed

lemma never_issued_not_own:
  "reachable fl ids st \<Longrightarrow> sid \<notin> ids \<Longrightarrow> st sid = None"
  using reachable_invariant by (cases "st sid") auto


subsection \<open>Unknown identifiers\<close>

text \<open>A non-empty identifier that session creation never returned, and that is not the
  name of a member of \<^verbatim>\<open>Object.prototype\<close>, gets the 400 reply with code -32000, and the
  store stays as it is.\<close>

lemma unknown_session_rejected:
  assumes "reachable fl ids st" and "sid \<notin> ids" and "sid \<noteq> []"
    and "sid \<notin> set Object_prototype_names"
  shows "post_mcp fl \<lparr>session_header = Some sid, isInitializeRequest = b\<rparr> env st
           = (Responded no_valid_session, st)"
  using never_issued_not_own [OF assms(1,2)] assms(3,4)
  by (simp add: post_mcp_def transports_get_def truthy_header_def Let_def)

text \<open>
  C1. The claim fails for the identifiers that name a member of \<^verbatim>\<open>Object.prototype\<close>. The
  header \<^verbatim>\<open>mcp-session-id: constructor\<close> was never returned by session creation (here no
  session was ever created), yet \<^verbatim>\<open>transports['constructor']\<close> is the inherited, truthy
  \<^verbatim>\<open>Object\<close> function: the route takes the first branch, and calling the missing
  \<^verbatim>\<open>handleRequest\<close> throws a \<^verbatim>\<open>TypeError\<close> instead of sending the 400 reply. Both source
  files behave so.
\<close>

theorem inherited_name_taken_for_session:
  "post_mcp Server_ts \<lparr>session_header = Some ''constructor'', isInitializeRequest = False\<rparr>
      \<lparr>connect = None, randomUUID = ''123e4567-e89b-42d3-a456-426614174000'', handshake = True\<rparr> Map.empty
     = (Threw TypeError, Map.empty)
 \<and> post_mcp Part_000 \<lparr>session_header = Some ''constructor'', isInitializeRequest = False\<rparr>
      \<lparr>connect = None, randomUUID = ''123e4567-e89b-42d3-a456-426614174000'', handshake = True\<rparr> Map.empty
     = (Threw TypeError, Map.empty)
 \<and> transports_get Map.empty ''constructor'' = Inherited"
  by (simp add: post_mcp_def transports_get_def truthy_header_def Let_def
      Object_prototype_names_def)

subsection \<open>Session creation\<close>






subsection \<open>Requests that belong to no session\<close>

text \<open>
  C3. A request without session header whose body is not an initialize request gets the
  400 reply with JSON-RPC error code -32000, \<^verbatim>\<open>Bad Request: No valid session\<close>. No
  transport is created and the store is returned unchanged. Both source files behave so.
\<close>

theorem no_session_non_initialize_rejected:
  "session_header req = None \<Longrightarrow> \<not> isInitializeRequest req \<Longrightarrow>
   post_mcp fl req env transports = (Responded no_valid_session, transports)"
  by (simp add: post_mcp_def truthy_header_def Let_def)

text \<open>The theorem at such a request, arriving while one session is registered.\<close>

theorem no_session_non_initialize_rejected_witness:
  "session_header \<lparr>session_header = None, isInitializeRequest = False\<rparr> = None
 \<and> \<not> isInitializeRequest \<lparr>session_header = None, isInitializeRequest = False\<rparr>
 \<and> post_mcp Part_000 \<lparr>session_header = None, isInitializeRequest = False\<rparr>
      \<lparr>connect = None, randomUUID = ''9b2f0c1e-7a4d-4e8b-b1c3-5d6e7f809a1b'', handshake = True\<rparr>
      [''123e4567-e89b-42d3-a456-426614174000'' \<mapsto>
         \<lparr>sessionId = Some ''123e4567-e89b-42d3-a456-426614174000'', onclose = False\<rparr>]
     = (Responded \<lparr>http_status = 400, jsonrpc_code = - 32000,
                   jsonrpc_message = ''Bad Request: No valid session''\<rparr>,
        [''123e4567-e89b-42d3-a456-426614174000'' \<mapsto>
           \<lparr>sessionId = Some ''123e4567-e89b-42d3-a456-426614174000'', onclose = False\<rparr>])"
proof -
  let ?req = "\<lparr>session_header = None, isInitializeRequest = False\<rparr>"
  have n: "session_header ?req = None" and i: "\<not> isInitializeRequest ?req"
    by simp_all
  show ?thesis
    using no_session_non_initialize_rejected [OF n i, of Part_000]
    by (simp add: no_valid_session_def)
qed

subsection \<open>Closure of a transport\<close>

text \<open>In \<^verbatim>\<open>src/server.ts\<close> the closure of a registered transport removes its entry; in
  \<^verbatim>\<open>src/unnamed/part_000\<close> it leaves the store as it is.\<close>

lemma closed_server_removed:
  assumes "reachable Server_ts ids st" and "st sid = Some t" and "sid \<noteq> []"
  shows "(transport_closed t st) sid = None"
  using reachable_invariant [OF assms(1,2)] assms(3)
  by (simp add: transport_closed_def)

lemma closed_part0_kept:
  assumes "reachable Part_000 ids st" and "st sid = Some t"
  shows "transport_closed t st = st"
  using reachable_invariant [OF assms(1,2)]
  by (simp add: transport_closed_def)

text \<open>
  C4. The claim holds in \<^verbatim>\<open>src/server.ts\<close> and fails in \<^verbatim>\<open>src/unnamed/part_000\<close>, which
  installs no \<^verbatim>\<open>onclose\<close> handler. There, after an initialize request has registered a
  session and its transport has signalled closure, the lookup of the identifier still
  finds the transport.
\<close>

theorem part0_closed_session_still_found:
  "post_mcp Part_000 \<lparr>session_header = None, isInitializeRequest = True\<rparr>
      \<lparr>connect = None, randomUUID = ''123e4567-e89b-42d3-a456-426614174000'', handshake = True\<rparr> Map.empty
    = (Initialized ''123e4567-e89b-42d3-a456-426614174000''
          \<lparr>sessionId = Some ''123e4567-e89b-42d3-a456-426614174000'', onclose = False\<rparr>,
       [''123e4567-e89b-42d3-a456-426614174000'' \<mapsto>
          \<lparr>sessionId = Some ''123e4567-e89b-42d3-a456-426614174000'', onclose = False\<rparr>])
 \<and> transports_get
      (transport_closed
         \<lparr>sessionId = Some ''123e4567-e89b-42d3-a456-426614174000'', onclose = False\<rparr>
         [''123e4567-e89b-42d3-a456-426614174000'' \<mapsto>
            \<lparr>sessionId = Some ''123e4567-e89b-42d3-a456-426614174000'', onclose = False\<rparr>])
      ''123e4567-e89b-42d3-a456-426614174000''
    = Own \<lparr>sessionId = Some ''123e4567-e89b-42d3-a456-426614174000'', onclose = False\<rparr>"
  by (simp add: post_mcp_def truthy_header_def Let_def new_transport_def
      onsessioninitialized_def transports_get_def transport_closed_def)

end
